theory Spec2Isabelle
  imports Complex_Main
begin

section \<open>Data model of the Home page (src/app/page.tsx)\<close>

text \<open>
  Strings are lists of 8-bit code units. The TypeScript union of four string literals
  \<^verbatim>\<open>WorkflowStatus\<close> is a datatype; an optional field is an \<open>option\<close>
  (\<open>None\<close> stands for both \<^verbatim>\<open>undefined\<close> and \<^verbatim>\<open>null\<close>, which the operators
  \<^verbatim>\<open>??\<close> and \<^verbatim>\<open>?.\<close> of the source do not tell apart).
\<close>

datatype WorkflowStatus = idle | in_progress | completed | error

record WorkflowStep =
  step_name :: string
  step_status :: WorkflowStatus
  step_detail :: "string option"

datatype icon = MailIcon | SparkIcon | PlaneIcon | CheckIcon

record WorkflowTemplateEntry =
  key :: string
  label :: string
  caption :: string
  icon :: icon

text \<open>
  The object built by \<^verbatim>\<open>{ ...template, status, detail }\<close>: the template entry extended
  by two fields.
\<close>

record RenderStep = WorkflowTemplateEntry +
  status :: WorkflowStatus
  detail :: "string option"

definition WORKFLOW_TEMPLATE :: "WorkflowTemplateEntry list" where
  "WORKFLOW_TEMPLATE =
     [\<lparr>key = ''Input'', label = ''Input'', caption = ''Instruction'', icon = MailIcon\<rparr>,
      \<lparr>key = ''Processing'', label = ''Processing'', caption = ''AI Planning'', icon = SparkIcon\<rparr>,
      \<lparr>key = ''Sending'', label = ''Sending'', caption = ''SMTP Dispatch'', icon = PlaneIcon\<rparr>,
      \<lparr>key = ''Completed'', label = ''Completed'', caption = ''Success'', icon = CheckIcon\<rparr>]"

subsection \<open>WorkflowReconciler\<close>

text \<open>
  \<^verbatim>\<open>WORKFLOW_TEMPLATE.map((template) => { const match = serverSteps.find(...); ... })\<close>.
  \<^verbatim>\<open>match?.status ?? "idle"\<close> and \<^verbatim>\<open>match?.detail\<close> are the two case distinctions.
\<close>

definition workflowSteps :: "WorkflowStep list \<Rightarrow> RenderStep list" where
  "workflowSteps serverSteps =
     map (\<lambda>template.
            let match = find (\<lambda>step. step_name step = key template) serverSteps
            in \<lparr>key = key template, label = label template, caption = caption template,
                icon = icon template,
                status = (case match of None \<Rightarrow> idle | Some m \<Rightarrow> step_status m),
                detail = (case match of None \<Rightarrow> None | Some m \<Rightarrow> step_detail m)\<rparr>)
         WORKFLOW_TEMPLATE"

text \<open>The text under a stage's label, \<^verbatim>\<open>{step.detail ?? step.caption}\<close>.\<close>

definition shown_detail :: "RenderStep \<Rightarrow> string" where
  "shown_detail step = (case detail step of None \<Rightarrow> caption step | Some d \<Rightarrow> d)"


subsection \<open>Dynamic values: parsed JSON and message payloads\<close>

text \<open>
  \<^verbatim>\<open>JSON.parse\<close> and \<^verbatim>\<open>event.data\<close> deliver values whose shape the TypeScript
  annotations do not check, so the authentication payload is a JavaScript value. Objects are
  association lists, read with \<open>map_of\<close>.
\<close>

datatype jsnumber = NaN | Infinite bool | Finite rat

datatype jsvalue =
    JUndefined
  | JNull
  | JBool bool
  | JNum jsnumber
  | JStr string
  | JArr "jsvalue list"
  | JObj "(string \<times> jsvalue) list"

text \<open>What \<^verbatim>\<open>if (v)\<close> tests.\<close>

fun truthy :: "jsvalue \<Rightarrow> bool" where
  "truthy JUndefined = False"
| "truthy JNull = False"
| "truthy (JBool b) = b"
| "truthy (JNum n) = (n \<noteq> NaN \<and> n \<noteq> Finite 0)"
| "truthy (JStr s) = (s \<noteq> [])"
| "truthy (JArr xs) = True"
| "truthy (JObj fs) = True"

text \<open>
  \<^verbatim>\<open>v?.email\<close> and \<^verbatim>\<open>v?.name\<close>: only an object carries such a property; on
  \<^verbatim>\<open>null\<close>, \<^verbatim>\<open>undefined\<close>, a primitive or an array the access gives \<^verbatim>\<open>undefined\<close>.
\<close>

fun get_property :: "jsvalue \<Rightarrow> string \<Rightarrow> jsvalue" where
  "get_property (JObj fs) k = (case map_of fs k of None \<Rightarrow> JUndefined | Some x \<Rightarrow> x)"
| "get_property v k = JUndefined"

definition email_of :: "jsvalue \<Rightarrow> jsvalue" where
  "email_of v = get_property v ''email''"

definition name_of :: "jsvalue \<Rightarrow> jsvalue" where
  "name_of v = get_property v ''name''"

subsection \<open>Requests, responses and the page state\<close>

record EmailDraft =
  recipient_email :: string
  recipient_name :: "string option"
  subject :: string
  body :: string

text \<open>
  The body of a response at its declared type \<^verbatim>\<open>AgentResponse\<close>; every field may be
  missing, as the \<^verbatim>\<open>??\<close> defaults of \<^verbatim>\<open>handleSubmit\<close> provide for.
\<close>

record AgentResponse =
  resp_status :: "WorkflowStatus option"
  resp_message :: "string option"
  resp_steps :: "WorkflowStep list option"
  resp_generated_email :: "EmailDraft option"

record AgentRequest =
  req_instruction :: string
  req_user_email :: jsvalue
  req_user_name :: jsvalue

text \<open>
  The eight \<^verbatim>\<open>useState\<close> cells of \<^verbatim>\<open>Home\<close>, and the parts of the browser its
  handlers act on: the origin's \<^verbatim>\<open>localStorage\<close>, the console's warnings, the requests
  handed to \<^verbatim>\<open>fetch\<close>, and the router's current path.
\<close>

record page_state =
  instruction :: string
  serverSteps :: "WorkflowStep list"
  currentStatus :: WorkflowStatus
  isSubmitting :: bool
  submitError :: "string option"
  authError :: "string option"
  user :: jsvalue
  generatedEmail :: "EmailDraft option"
  localStorage :: "string \<rightharpoonup> string"
  console :: "string list"
  requests :: "AgentRequest list"
  route :: string

definition AUTH_STORAGE_KEY :: string where
  "AUTH_STORAGE_KEY = ''email-agent-auth''"

text \<open>The state of a freshly mounted \<^verbatim>\<open>Home\<close> over a given store.\<close>

definition Home_initial :: "(string \<rightharpoonup> string) \<Rightarrow> page_state" where
  "Home_initial store =
     \<lparr>instruction = [], serverSteps = [], currentStatus = idle, isSubmitting = False,
      submitError = None, authError = None, user = JNull, generatedEmail = None,
      localStorage = store, console = [], requests = [], route = ''/''\<rparr>"

subsection \<open>Effects\<close>

text \<open>
  A handler is the list of state setters and browser calls it makes, in program order;
  \<open>run\<close> performs them from left to right. The states after each prefix of the list are
  the states an observer can see while the handler runs. The store is a map from keys to
  strings and \<^verbatim>\<open>setItem\<close> always succeeds.
\<close>

datatype effect =
    SetInstruction string
  | SetServerSteps "WorkflowStep list"
  | SetCurrentStatus WorkflowStatus
  | SetIsSubmitting bool
  | SetSubmitError "string option"
  | SetAuthError "string option"
  | SetUser jsvalue
  | SetGeneratedEmail "EmailDraft option"
  | StorageSetItem string string
  | ConsoleWarn string
  | Fetch AgentRequest
  | RouterReplace string

fun perform :: "effect \<Rightarrow> page_state \<Rightarrow> page_state" where
  "perform (SetInstruction v) s = s\<lparr>instruction := v\<rparr>"
| "perform (SetServerSteps v) s = s\<lparr>serverSteps := v\<rparr>"
| "perform (SetCurrentStatus v) s = s\<lparr>currentStatus := v\<rparr>"
| "perform (SetIsSubmitting v) s = s\<lparr>isSubmitting := v\<rparr>"
| "perform (SetSubmitError v) s = s\<lparr>submitError := v\<rparr>"
| "perform (SetAuthError v) s = s\<lparr>authError := v\<rparr>"
| "perform (SetUser v) s = s\<lparr>user := v\<rparr>"
| "perform (SetGeneratedEmail v) s = s\<lparr>generatedEmail := v\<rparr>"
| "perform (StorageSetItem k v) s = s\<lparr>localStorage := (localStorage s)(k \<mapsto> v)\<rparr>"
| "perform (ConsoleWarn m) s = s\<lparr>console := console s @ [m]\<rparr>"
| "perform (Fetch r) s = s\<lparr>requests := requests s @ [r]\<rparr>"
| "perform (RouterReplace p) s = s\<lparr>route := p\<rparr>"

definition run :: "effect list \<Rightarrow> page_state \<Rightarrow> page_state" where
  "run es s = fold perform es s"


section \<open>AuthSessionSync (the first effect hook of Home)\<close>

text \<open>
  \<^verbatim>\<open>JSON.parse\<close> and \<^verbatim>\<open>JSON.stringify\<close> belong to the platform and are parameters:
  \<open>JSON_parse raw = None\<close> is the thrown \<^verbatim>\<open>SyntaxError\<close>. The configured origin
  \<^verbatim>\<open>new URL(API_BASE_URL).origin\<close> is the parameter \<open>apiOrigin\<close>. A string that may be
  \<^verbatim>\<open>null\<close> passes \<^verbatim>\<open>if (stored)\<close> when it is there and not empty.
\<close>

definition restoreFromStorage :: "(string \<Rightarrow> jsvalue option) \<Rightarrow> page_state \<Rightarrow> effect list" where
  "restoreFromStorage JSON_parse s =
     (case localStorage s AUTH_STORAGE_KEY of
        None \<Rightarrow> []
      | Some stored \<Rightarrow>
          if stored \<noteq> [] then
            (case JSON_parse stored of
               None \<Rightarrow> [ConsoleWarn ''Failed to parse stored auth'']
             | Some parsed \<Rightarrow> if truthy (email_of parsed) then [SetUser parsed] else [])
          else [])"

definition messageHandler ::
    "string \<Rightarrow> (jsvalue \<Rightarrow> string) \<Rightarrow> string \<Rightarrow> jsvalue \<Rightarrow> effect list" where
  "messageHandler apiOrigin JSON_stringify event_origin event_data =
     (if event_origin \<noteq> apiOrigin \<or> \<not> truthy (email_of event_data) then []
      else [SetUser event_data,
            StorageSetItem AUTH_STORAGE_KEY (JSON_stringify event_data),
            SetAuthError None])"

definition storageHandler ::
    "(string \<Rightarrow> jsvalue option) \<Rightarrow> string option \<Rightarrow> string option \<Rightarrow> effect list" where
  "storageHandler JSON_parse event_key event_newValue =
     (case event_newValue of
        None \<Rightarrow> []
      | Some newValue \<Rightarrow>
          if event_key = Some AUTH_STORAGE_KEY \<and> newValue \<noteq> [] then
            (case JSON_parse newValue of
               None \<Rightarrow> [ConsoleWarn ''Failed to parse auth payload from storage'']
             | Some parsed \<Rightarrow> if truthy (email_of parsed) then [SetUser parsed] else [])
          else [])"

text \<open>\<open>popup\<close> tells whether \<^verbatim>\<open>window.open\<close> returned a window.\<close>

definition handleGoogleConnect :: "bool \<Rightarrow> effect list" where
  "handleGoogleConnect popup =
     (if \<not> popup then [SetAuthError (Some ''Please allow pop-ups to connect your Google account.'')]
      else [])"

section \<open>SubmissionController (handleSubmit)\<close>

text \<open>
  \<^verbatim>\<open>String.prototype.trim\<close> removes white space and line terminators from both ends;
  among the code units below 256 these are the seven listed.
\<close>

definition is_js_whitespace :: "char \<Rightarrow> bool" where
  "is_js_whitespace c =
     (c \<in> set [CHR 0x09, CHR 0x0A, CHR 0x0B, CHR 0x0C, CHR 0x0D, CHR 0x20, CHR 0xA0])"

definition trim :: "string \<Rightarrow> string" where
  "trim s = rev (dropWhile is_js_whitespace (rev (dropWhile is_js_whitespace s)))"

definition optimistic_steps :: "WorkflowStep list" where
  "optimistic_steps =
     [\<lparr>step_name = ''Input'', step_status = completed, step_detail = Some ''Instruction received.''\<rparr>,
      \<lparr>step_name = ''Processing'', step_status = in_progress, step_detail = None\<rparr>,
      \<lparr>step_name = ''Sending'', step_status = idle, step_detail = None\<rparr>,
      \<lparr>step_name = ''Completed'', step_status = idle, step_detail = None\<rparr>]"

text \<open>
  \<^verbatim>\<open>handleSubmit\<close> up to its first \<^verbatim>\<open>await\<close>: the guard, the five setters and the
  call of \<^verbatim>\<open>fetch\<close>. Its argument is the state of the render that created the closure:
  \<^verbatim>\<open>instruction\<close>, \<^verbatim>\<open>isSubmitting\<close> and \<^verbatim>\<open>user\<close> are constants of that render, and
  a setter called by the closure does not change what the closure reads. The effects act
  on the current state, the one \<open>run\<close> is applied to. A call made from the latest render
  is \<open>run (handleSubmit_begin s) s\<close>; a second call from the same closure, before React
  has rendered again, is \<open>run (handleSubmit_begin s)\<close> applied to the state the first call
  left.
\<close>

definition handleSubmit_begin :: "page_state \<Rightarrow> effect list" where
  "handleSubmit_begin s =
     (if trim (instruction s) = [] \<or> isSubmitting s then []
      else [SetIsSubmitting True,
            SetSubmitError None,
            SetGeneratedEmail None,
            SetCurrentStatus in_progress,
            SetServerSteps optimistic_steps,
            Fetch \<lparr>req_instruction = instruction s,
                   req_user_email = email_of (user s),
                   req_user_name = name_of (user s)\<rparr>])"

text \<open>
  What the two \<^verbatim>\<open>await\<close>s can deliver: \<^verbatim>\<open>fetch\<close> rejects, \<^verbatim>\<open>response.json()\<close>
  rejects, or a response arrives with its \<^verbatim>\<open>ok\<close> flag and its parsed body. A thrown
  value is an \<^verbatim>\<open>Error\<close> with its message, or something else.
\<close>

datatype thrown = ErrorObject string | NonError

datatype fetch_outcome =
    FetchRejected thrown
  | JsonRejected thrown
  | Responded bool AgentResponse

text \<open>The rest of the \<^verbatim>\<open>try\<close> block: \<open>Inl\<close> is the value thrown into \<^verbatim>\<open>catch\<close>.\<close>

fun try_block :: "fetch_outcome \<Rightarrow> thrown + effect list" where
  "try_block (FetchRejected e) = Inl e"
| "try_block (JsonRejected e) = Inl e"
| "try_block (Responded ok data) =
     (if \<not> ok then
        Inl (ErrorObject (case resp_message data of
                            None \<Rightarrow> ''Unable to process automation request.''
                          | Some m \<Rightarrow> m))
      else
        Inr [SetServerSteps (case resp_steps data of None \<Rightarrow> [] | Some xs \<Rightarrow> xs),
             SetCurrentStatus (case resp_status data of None \<Rightarrow> error | Some st \<Rightarrow> st),
             SetGeneratedEmail (resp_generated_email data),
             SetInstruction []])"

definition catch_block :: "thrown \<Rightarrow> effect list" where
  "catch_block e =
     [SetSubmitError (Some (case e of ErrorObject m \<Rightarrow> m | NonError \<Rightarrow> ''Unexpected error'')),
      SetCurrentStatus error]"

definition finally_block :: "effect list" where
  "finally_block = [SetIsSubmitting False]"

definition handleSubmit_settle :: "fetch_outcome \<Rightarrow> effect list" where
  "handleSubmit_settle outcome =
     (case try_block outcome of Inl e \<Rightarrow> catch_block e | Inr es \<Rightarrow> es) @ finally_block"

text \<open>
  One whole submission, called from the latest render of state \<open>s\<close>, with the given
  outcome of the request.
\<close>

definition submit :: "fetch_outcome \<Rightarrow> page_state \<Rightarrow> page_state" where
  "submit outcome s =
     (if handleSubmit_begin s = [] then s
      else run (handleSubmit_settle outcome) (run (handleSubmit_begin s) s))"

section \<open>The authentication callback page (src/app/auth/callback/page.tsx)\<close>

text \<open>
  The effect hook of \<^verbatim>\<open>AuthCallbackPage\<close>; \<open>payload\<close> is
  \<^verbatim>\<open>searchParams.get("payload")\<close>. The hook runs in the browser only, where
  \<^verbatim>\<open>window\<close> is defined.
\<close>

definition AuthCallbackPage ::
    "(string \<Rightarrow> jsvalue option) \<Rightarrow> (jsvalue \<Rightarrow> string) \<Rightarrow> string option \<Rightarrow> effect list" where
  "AuthCallbackPage JSON_parse JSON_stringify payload =
     (case payload of
        None \<Rightarrow> []
      | Some p \<Rightarrow>
          if p \<noteq> [] then
            (case JSON_parse p of
               None \<Rightarrow> [ConsoleWarn ''Unable to restore authentication payload'']
             | Some parsed \<Rightarrow>
                 if truthy (email_of parsed)
                 then [StorageSetItem AUTH_STORAGE_KEY (JSON_stringify parsed)]
                 else [])
          else [])
     @ [RouterReplace ''/'']"

section \<open>Auxiliary facts\<close>

lemma run_Nil: "run [] s = s"
  by (simp add: run_def)

lemma run_Cons: "run (e # es) s = run es (perform e s)"
  by (simp add: run_def)

lemma run_append: "run (xs @ ys) s = run ys (run xs s)"
  by (simp add: run_def)




lemma handleSubmit_begin_accepted:
  "trim (instruction s) \<noteq> [] \<Longrightarrow> \<not> isSubmitting s \<Longrightarrow>
   run (handleSubmit_begin s) s =
     s\<lparr>isSubmitting := True, submitError := None, generatedEmail := None,
       currentStatus := in_progress, serverSteps := optimistic_steps,
       requests := requests s @ [\<lparr>req_instruction = instruction s,
                                  req_user_email = email_of (user s),
                                  req_user_name = name_of (user s)\<rparr>]\<rparr>"
  by (simp add: handleSubmit_begin_def run_Cons run_Nil)

lemma submit_accepted:
  "trim (instruction s) \<noteq> [] \<Longrightarrow> \<not> isSubmitting s \<Longrightarrow>
   submit outcome s = run (handleSubmit_settle outcome) (run (handleSubmit_begin s) s)"
  by (simp add: submit_def handleSubmit_begin_def)

lemma settle_success:
  "run (handleSubmit_settle (Responded True data)) s =
     s\<lparr>serverSteps := (case resp_steps data of None \<Rightarrow> [] | Some xs \<Rightarrow> xs),
       currentStatus := (case resp_status data of None \<Rightarrow> error | Some st \<Rightarrow> st),
       generatedEmail := resp_generated_email data,
       instruction := [],
       isSubmitting := False\<rparr>"
  by (simp add: handleSubmit_settle_def finally_block_def run_Cons run_Nil)

lemma settle_thrown:
  "try_block outcome = Inl e \<Longrightarrow>
   run (handleSubmit_settle outcome) s =
     s\<lparr>submitError := Some (case e of ErrorObject m \<Rightarrow> m | NonError \<Rightarrow> ''Unexpected error''),
       currentStatus := error,
       isSubmitting := False\<rparr>"
  by (simp add: handleSubmit_settle_def catch_block_def finally_block_def run_Cons run_Nil)

lemma workflowSteps_Nil:
  "map status (workflowSteps []) = [idle, idle, idle, idle]
   \<and> map detail (workflowSteps []) = [None, None, None, None]
   \<and> map shown_detail (workflowSteps []) =
        [''Instruction'', ''AI Planning'', ''SMTP Dispatch'', ''Success'']"
  by (simp add: workflowSteps_def WORKFLOW_TEMPLATE_def shown_detail_def)

lemma begin_effects:
  "trim (instruction s) \<noteq> [] \<Longrightarrow> \<not> isSubmitting s \<Longrightarrow>
   handleSubmit_begin s =
     [SetIsSubmitting True, SetSubmitError None, SetGeneratedEmail None,
      SetCurrentStatus in_progress, SetServerSteps optimistic_steps,
      Fetch \<lparr>req_instruction = instruction s, req_user_email = email_of (user s),
             req_user_name = name_of (user s)\<rparr>]"
  by (simp add: handleSubmit_begin_def)

lemma workflowSteps_optimistic:
  "map (\<lambda>r. (key r, status r)) (workflowSteps optimistic_steps) =
     [(''Input'', completed), (''Processing'', in_progress),
      (''Sending'', idle), (''Completed'', idle)]"
  by (simp add: workflowSteps_def WORKFLOW_TEMPLATE_def optimistic_steps_def)

lemma run_keeps_isSubmitting:
  "(\<And>v. SetIsSubmitting v \<notin> set es) \<Longrightarrow> isSubmitting (run es s) = isSubmitting s"
proof (induction es arbitrary: s)
  case Nil
  show ?case by (simp add: run_Nil)
next
  case (Cons e es)
  from Cons.prems have "\<And>v. SetIsSubmitting v \<notin> set es" and ne: "\<And>v. e \<noteq> SetIsSubmitting v"
    by auto
  then have "isSubmitting (run es (perform e s)) = isSubmitting (perform e s)"
    by (simp add: Cons.IH)
  moreover from ne have "isSubmitting (perform e s) = isSubmitting s"
    by (cases e) auto
  ultimately show ?case by (simp add: run_Cons)
qed

lemma settle_shape:
  "\<exists>body. handleSubmit_settle outcome = body @ [SetIsSubmitting False]
           \<and> (\<forall>v. SetIsSubmitting v \<notin> set body)"
proof (cases "try_block outcome")
  case (Inl e)
  then show ?thesis
    by (simp add: handleSubmit_settle_def catch_block_def finally_block_def)
next
  case (Inr es)
  then have "\<forall>v. SetIsSubmitting v \<notin> set es"
    by (cases outcome) (auto split: if_splits)
  with Inr show ?thesis
    by (simp add: handleSubmit_settle_def finally_block_def)
qed

lemma messageHandler_accept:
  "event_origin = apiOrigin \<Longrightarrow> truthy (email_of event_data) \<Longrightarrow>
   messageHandler apiOrigin JSON_stringify event_origin event_data =
     [SetUser event_data,
      StorageSetItem AUTH_STORAGE_KEY (JSON_stringify event_data),
      SetAuthError None]"
  by (simp add: messageHandler_def)

lemma messageHandler_reject:
  "event_origin \<noteq> apiOrigin \<or> \<not> truthy (email_of event_data) \<Longrightarrow>
   messageHandler apiOrigin JSON_stringify event_origin event_data = []"
  by (auto simp: messageHandler_def)

lemma workflowSteps_nth:
  "i < length WORKFLOW_TEMPLATE \<Longrightarrow>
   workflowSteps S ! i =
     (let template = WORKFLOW_TEMPLATE ! i;
          match = find (\<lambda>step. step_name step = key template) S
      in \<lparr>key = key template, label = label template, caption = caption template,
          icon = icon template,
          status = (case match of None \<Rightarrow> idle | Some m \<Rightarrow> step_status m),
          detail = (case match of None \<Rightarrow> None | Some m \<Rightarrow> step_detail m)\<rparr>)"
  by (simp add: workflowSteps_def Let_def)

lemma run_user:
  "(\<And>p. SetUser p \<in> set es \<Longrightarrow> truthy (email_of p)) \<Longrightarrow>
   user (run es s) = user s \<or> truthy (email_of (user (run es s)))"
proof (induction es arbitrary: s)
  case Nil
  show ?case by (simp add: run_Nil)
next
  case (Cons e es)
  from Cons.prems have rest: "\<And>p. SetUser p \<in> set es \<Longrightarrow> truthy (email_of p)"
    by simp
  have ih: "user (run es (perform e s)) = user (perform e s)
            \<or> truthy (email_of (user (run es (perform e s))))"
    by (rule Cons.IH [OF rest])
  have "user (perform e s) = user s \<or> truthy (email_of (user (perform e s)))"
  proof (cases e)
    case (SetUser p)
    with Cons.prems [of p] show ?thesis by simp
  qed simp_all
  with ih show ?case
    by (auto simp: run_Cons)
qed

lemma auth_handlers_SetUser:
  "SetUser p \<in> set (restoreFromStorage JSON_parse s) \<Longrightarrow> truthy (email_of p)"
  "SetUser p \<in> set (messageHandler apiOrigin JSON_stringify event_origin event_data)
     \<Longrightarrow> truthy (email_of p)"
  "SetUser p \<in> set (storageHandler JSON_parse event_key event_newValue) \<Longrightarrow> truthy (email_of p)"
  "SetUser p \<in> set (handleGoogleConnect popup) \<Longrightarrow> truthy (email_of p)"
  by (auto simp: restoreFromStorage_def messageHandler_def storageHandler_def
        handleGoogleConnect_def split: option.splits if_splits)

lemma email_truthy_is_object:
  "truthy (email_of v) \<Longrightarrow> \<exists>fs. v = JObj fs"
  by (cases v) (simp_all add: email_of_def)

section \<open>WorkflowReconciler: properties\<close>

text \<open>
  C1. For every server step list, of any length and content, the reconciliation returns
  (it is a total function with no failing branch) exactly four RenderSteps, and their keys
  are Input, Processing, Sending, Completed in this order.
\<close>

theorem workflowSteps_four_in_template_order:
  "length (workflowSteps S) = 4
   \<and> map key (workflowSteps S) = [''Input'', ''Processing'', ''Sending'', ''Completed'']
   \<and> map key (workflowSteps S) = map key WORKFLOW_TEMPLATE"
  by (simp add: workflowSteps_def WORKFLOW_TEMPLATE_def Let_def
        WorkflowTemplateEntry.extend_def RenderStep.fields_def)

text \<open>
  C8, as amended. For every server step list and every template entry: when no step of
  the list has the entry's key as its name, the RenderStep is idle, has no detail of its
  own, and shows the caption of the template. The converse does not hold. The RenderStep
  has no detail of its own, so that the caption is shown in its place, exactly when no step
  matches or the first matching step carries no detail; and it is idle and shows the
  caption exactly when no step matches or the first matching step is idle with no detail
  (or with the caption as its detail).
\<close>

theorem caption_fallback_characterised:
  "i < length WORKFLOW_TEMPLATE \<longrightarrow>
     ((\<forall>step \<in> set S. step_name step \<noteq> key (WORKFLOW_TEMPLATE ! i)) \<longrightarrow>
         status (workflowSteps S ! i) = idle
         \<and> detail (workflowSteps S ! i) = None
         \<and> shown_detail (workflowSteps S ! i) = caption (WORKFLOW_TEMPLATE ! i))
     \<and> (detail (workflowSteps S ! i) = None \<longleftrightarrow>
          (case find (\<lambda>step. step_name step = key (WORKFLOW_TEMPLATE ! i)) S of
             None \<Rightarrow> True
           | Some m \<Rightarrow> step_detail m = None))
     \<and> (status (workflowSteps S ! i) = idle \<longleftrightarrow>
          (case find (\<lambda>step. step_name step = key (WORKFLOW_TEMPLATE ! i)) S of
             None \<Rightarrow> True
           | Some m \<Rightarrow> step_status m = idle))
     \<and> (status (workflowSteps S ! i) = idle
          \<and> shown_detail (workflowSteps S ! i) = caption (WORKFLOW_TEMPLATE ! i) \<longleftrightarrow>
          (case find (\<lambda>step. step_name step = key (WORKFLOW_TEMPLATE ! i)) S of
             None \<Rightarrow> True
           | Some m \<Rightarrow> step_status m = idle
                       \<and> (step_detail m = None
                           \<or> step_detail m = Some (caption (WORKFLOW_TEMPLATE ! i)))))"
proof
  assume i: "i < length WORKFLOW_TEMPLATE"
  let ?t = "WORKFLOW_TEMPLATE ! i"
  let ?m = "find (\<lambda>step. step_name step = key ?t) S"
  have st: "status (workflowSteps S ! i) = (case ?m of None \<Rightarrow> idle | Some m \<Rightarrow> step_status m)"
    and de: "detail (workflowSteps S ! i) = (case ?m of None \<Rightarrow> None | Some m \<Rightarrow> step_detail m)"
    and ca: "caption (workflowSteps S ! i) = caption ?t"
    by (simp_all add: workflowSteps_nth [OF i] Let_def)
  have none: "?m = None" if "\<forall>step \<in> set S. step_name step \<noteq> key ?t"
    using that by (simp add: find_None_iff)
  show "((\<forall>step \<in> set S. step_name step \<noteq> key ?t) \<longrightarrow>
         status (workflowSteps S ! i) = idle
         \<and> detail (workflowSteps S ! i) = None
         \<and> shown_detail (workflowSteps S ! i) = caption ?t)
     \<and> (detail (workflowSteps S ! i) = None \<longleftrightarrow>
          (case ?m of None \<Rightarrow> True | Some m \<Rightarrow> step_detail m = None))
     \<and> (status (workflowSteps S ! i) = idle \<longleftrightarrow>
          (case ?m of None \<Rightarrow> True | Some m \<Rightarrow> step_status m = idle))
     \<and> (status (workflowSteps S ! i) = idle
          \<and> shown_detail (workflowSteps S ! i) = caption ?t \<longleftrightarrow>
          (case ?m of
             None \<Rightarrow> True
           | Some m \<Rightarrow> step_status m = idle
                       \<and> (step_detail m = None \<or> step_detail m = Some (caption ?t))))"
  proof (cases ?m)
    case None
    then show ?thesis
      by (simp add: st de ca shown_detail_def)
  next
    case (Some m)
    then have "\<not> (\<forall>step \<in> set S. step_name step \<noteq> key ?t)"
      using none by auto
    with Some show ?thesis
      by (cases "step_detail m") (auto simp: st de ca shown_detail_def)
  qed
qed

theorem caption_fallback_characterised_witness:
  "(2::nat) < length WORKFLOW_TEMPLATE
   \<and> step_name \<lparr>step_name = ''Input'', step_status = completed, step_detail = None\<rparr>
       \<noteq> key (WORKFLOW_TEMPLATE ! 2)
   \<and> status (workflowSteps [\<lparr>step_name = ''Input'', step_status = completed, step_detail = None\<rparr>] ! 2)
       = idle
   \<and> shown_detail (workflowSteps [\<lparr>step_name = ''Input'', step_status = completed, step_detail = None\<rparr>] ! 2)
       = caption (WORKFLOW_TEMPLATE ! 2)"
proof -
  have i: "(2::nat) < length WORKFLOW_TEMPLATE"
    by (simp add: WORKFLOW_TEMPLATE_def)
  have n: "\<forall>step \<in> set [\<lparr>step_name = ''Input'', step_status = completed, step_detail = None\<rparr>].
             step_name step \<noteq> key (WORKFLOW_TEMPLATE ! 2)"
    by (simp add: WORKFLOW_TEMPLATE_def)
  have m: "step_name \<lparr>step_name = ''Input'', step_status = completed, step_detail = None\<rparr>
             \<noteq> key (WORKFLOW_TEMPLATE ! 2)"
    by (simp add: WORKFLOW_TEMPLATE_def)
  from caption_fallback_characterised
         [of 2 "[\<lparr>step_name = ''Input'', step_status = completed, step_detail = None\<rparr>]"] i n
  have "status (workflowSteps [\<lparr>step_name = ''Input'', step_status = completed,
                                step_detail = None\<rparr>] ! 2) = idle
        \<and> shown_detail (workflowSteps [\<lparr>step_name = ''Input'', step_status = completed,
                                          step_detail = None\<rparr>] ! 2)
            = caption (WORKFLOW_TEMPLATE ! 2)"
    by blast
  with i m show ?thesis
    by blast
qed

text \<open>
  The claim C8 as stated fails: with the single server step Sending, idle and without
  detail, the third RenderStep is idle and shows the caption although a step matches its
  key.
\<close>

theorem caption_fallback_counterexample:
  "status (workflowSteps [\<lparr>step_name = ''Sending'', step_status = idle, step_detail = None\<rparr>] ! 2) = idle
   \<and> shown_detail (workflowSteps [\<lparr>step_name = ''Sending'', step_status = idle, step_detail = None\<rparr>] ! 2)
       = caption (WORKFLOW_TEMPLATE ! 2)
   \<and> \<lparr>step_name = ''Sending'', step_status = idle, step_detail = None\<rparr>
       \<in> set [\<lparr>step_name = ''Sending'', step_status = idle, step_detail = None\<rparr>]
   \<and> step_name \<lparr>step_name = ''Sending'', step_status = idle, step_detail = None\<rparr>
       = key (WORKFLOW_TEMPLATE ! 2)"
  by (simp add: workflowSteps_def WORKFLOW_TEMPLATE_def shown_detail_def)

section \<open>SubmissionController: properties\<close>





text \<open>
  C3. After a response with \<open>ok\<close> the step list is exactly the list of the response
  (the empty list when the field is missing), with nothing of the optimistic snapshot kept;
  the overall status is the status of the response; the draft is the draft of the response,
  and none when the field is missing; the instruction is empty. A response with no steps
  is shown as four idle stages with the captions of the template.
\<close>

theorem success_response_is_authoritative:
  "run (handleSubmit_settle (Responded True data)) s =
     s\<lparr>serverSteps := (case resp_steps data of None \<Rightarrow> [] | Some xs \<Rightarrow> xs),
       currentStatus := (case resp_status data of None \<Rightarrow> error | Some st \<Rightarrow> st),
       generatedEmail := resp_generated_email data,
       instruction := [],
       isSubmitting := False\<rparr>
   \<and> (trim (instruction s) \<noteq> [] \<and> \<not> isSubmitting s \<longrightarrow>
        (\<forall>xs. resp_steps data = Some xs \<longrightarrow> serverSteps (submit (Responded True data) s) = xs)
        \<and> (\<forall>st. resp_status data = Some st \<longrightarrow>
               currentStatus (submit (Responded True data) s) = st)
        \<and> generatedEmail (submit (Responded True data) s) = resp_generated_email data
        \<and> instruction (submit (Responded True data) s) = []
        \<and> (resp_steps data = Some [] \<longrightarrow>
             map status (workflowSteps (serverSteps (submit (Responded True data) s)))
               = [idle, idle, idle, idle]
             \<and> map shown_detail (workflowSteps (serverSteps (submit (Responded True data) s)))
               = [''Instruction'', ''AI Planning'', ''SMTP Dispatch'', ''Success'']))"
proof (intro conjI impI allI)
  show "run (handleSubmit_settle (Responded True data)) s =
     s\<lparr>serverSteps := (case resp_steps data of None \<Rightarrow> [] | Some xs \<Rightarrow> xs),
       currentStatus := (case resp_status data of None \<Rightarrow> error | Some st \<Rightarrow> st),
       generatedEmail := resp_generated_email data,
       instruction := [],
       isSubmitting := False\<rparr>"
    by (rule settle_success)
next
  assume a: "trim (instruction s) \<noteq> [] \<and> \<not> isSubmitting s"
  then have sub: "submit (Responded True data) s =
      run (handleSubmit_settle (Responded True data)) (run (handleSubmit_begin s) s)"
    by (simp add: submit_accepted)
  show "generatedEmail (submit (Responded True data) s) = resp_generated_email data"
    by (simp add: sub settle_success)
  show "instruction (submit (Responded True data) s) = []"
    by (simp add: sub settle_success)
  { fix xs assume "resp_steps data = Some xs"
    then show "serverSteps (submit (Responded True data) s) = xs"
      by (simp add: sub settle_success) }
  { fix st assume "resp_status data = Some st"
    then show "currentStatus (submit (Responded True data) s) = st"
      by (simp add: sub settle_success) }
  { assume e: "resp_steps data = Some []"
    then have n: "serverSteps (submit (Responded True data) s) = []"
      by (simp add: sub settle_success)
    show "map status (workflowSteps (serverSteps (submit (Responded True data) s)))
               = [idle, idle, idle, idle]"
      unfolding n by (simp add: workflowSteps_Nil)
    show "map shown_detail (workflowSteps (serverSteps (submit (Responded True data) s)))
               = [''Instruction'', ''AI Planning'', ''SMTP Dispatch'', ''Success'']"
      unfolding n by (simp add: workflowSteps_Nil) }
qed

theorem success_response_is_authoritative_witness:
  "trim (instruction ((Home_initial Map.empty)\<lparr>instruction := ''go''\<rparr>)) \<noteq> []
   \<and> \<not> isSubmitting ((Home_initial Map.empty)\<lparr>instruction := ''go''\<rparr>)
   \<and> serverSteps
        (submit (Responded True \<lparr>resp_status = Some completed, resp_message = Some ''sent'',
                                 resp_steps = Some [], resp_generated_email = None\<rparr>)
           ((Home_initial Map.empty)\<lparr>instruction := ''go''\<rparr>)) = []
   \<and> currentStatus
        (submit (Responded True \<lparr>resp_status = Some completed, resp_message = Some ''sent'',
                                 resp_steps = Some [], resp_generated_email = None\<rparr>)
           ((Home_initial Map.empty)\<lparr>instruction := ''go''\<rparr>)) = completed
   \<and> generatedEmail
        (submit (Responded True \<lparr>resp_status = Some completed, resp_message = Some ''sent'',
                                 resp_steps = Some [], resp_generated_email = None\<rparr>)
           ((Home_initial Map.empty)\<lparr>instruction := ''go''\<rparr>)) = None
   \<and> map status (workflowSteps (serverSteps
        (submit (Responded True \<lparr>resp_status = Some completed, resp_message = Some ''sent'',
                                 resp_steps = Some [], resp_generated_email = None\<rparr>)
           ((Home_initial Map.empty)\<lparr>instruction := ''go''\<rparr>)))) = [idle, idle, idle, idle]"
proof -
  let ?g = "(Home_initial Map.empty)\<lparr>instruction := ''go''\<rparr>"
  let ?d = "\<lparr>resp_status = Some completed, resp_message = Some ''sent'',
            resp_steps = Some [], resp_generated_email = None\<rparr>"
  have g: "trim (instruction ?g) \<noteq> [] \<and> \<not> isSubmitting ?g"
    by (simp add: Home_initial_def trim_def is_js_whitespace_def)
  have d: "resp_steps ?d = Some []" "resp_status ?d = Some completed"
    "resp_generated_email ?d = None"
    by simp_all
  from success_response_is_authoritative [of ?d ?g] g d show ?thesis
    by metis
qed

text \<open>
  C4, as amended. After a response without \<open>ok\<close> the error text is the message of the
  body when there is one and \<open>Unable to process automation request.\<close> otherwise, and the
  overall status is \<open>error\<close>. The step list is not touched: whatever steps the body carries,
  the optimistic snapshot of this submission stays.
\<close>

theorem failure_response_sets_error:
  "run (handleSubmit_settle (Responded False data)) s =
     s\<lparr>submitError := Some (case resp_message data of
                              None \<Rightarrow> ''Unable to process automation request.''
                            | Some m \<Rightarrow> m),
       currentStatus := error,
       isSubmitting := False\<rparr>
   \<and> serverSteps (run (handleSubmit_settle (Responded False data)) s) = serverSteps s
   \<and> (trim (instruction s) \<noteq> [] \<and> \<not> isSubmitting s \<longrightarrow>
        serverSteps (submit (Responded False data) s) = optimistic_steps
        \<and> currentStatus (submit (Responded False data) s) = error
        \<and> (\<forall>m. resp_message data = Some m \<longrightarrow>
               submitError (submit (Responded False data) s) = Some m)
        \<and> (resp_message data = None \<longrightarrow>
               submitError (submit (Responded False data) s)
                 = Some ''Unable to process automation request.''))"
proof -
  have t: "try_block (Responded False data) =
      Inl (ErrorObject (case resp_message data of
                              None \<Rightarrow> ''Unable to process automation request.''
                            | Some m \<Rightarrow> m))"
    by simp
  have st: "\<And>s. run (handleSubmit_settle (Responded False data)) s =
     s\<lparr>submitError := Some (case resp_message data of
                              None \<Rightarrow> ''Unable to process automation request.''
                            | Some m \<Rightarrow> m),
       currentStatus := error,
       isSubmitting := False\<rparr>"
    by (simp add: settle_thrown [OF t])
  show ?thesis
    by (simp add: st submit_accepted handleSubmit_begin_accepted)
qed

theorem failure_response_sets_error_witness:
  "trim (instruction ((Home_initial Map.empty)\<lparr>instruction := ''go''\<rparr>)) \<noteq> []
   \<and> \<not> isSubmitting ((Home_initial Map.empty)\<lparr>instruction := ''go''\<rparr>)
   \<and> serverSteps
        (submit (Responded False \<lparr>resp_status = Some error, resp_message = Some ''boom'',
                                  resp_steps = Some [], resp_generated_email = None\<rparr>)
           ((Home_initial Map.empty)\<lparr>instruction := ''go''\<rparr>)) = optimistic_steps
   \<and> currentStatus
        (submit (Responded False \<lparr>resp_status = Some error, resp_message = Some ''boom'',
                                  resp_steps = Some [], resp_generated_email = None\<rparr>)
           ((Home_initial Map.empty)\<lparr>instruction := ''go''\<rparr>)) = error
   \<and> submitError
        (submit (Responded False \<lparr>resp_status = Some error, resp_message = Some ''boom'',
                                  resp_steps = Some [], resp_generated_email = None\<rparr>)
           ((Home_initial Map.empty)\<lparr>instruction := ''go''\<rparr>)) = Some ''boom''"
proof -
  let ?g = "(Home_initial Map.empty)\<lparr>instruction := ''go''\<rparr>"
  let ?d = "\<lparr>resp_status = Some error, resp_message = Some ''boom'',
            resp_steps = Some [], resp_generated_email = None\<rparr>"
  have g: "trim (instruction ?g) \<noteq> [] \<and> \<not> isSubmitting ?g"
    by (simp add: Home_initial_def trim_def is_js_whitespace_def)
  have d: "resp_message ?d = Some ''boom''"
    by simp
  from failure_response_sets_error [of ?d ?g] g d show ?thesis
    by metis
qed

text \<open>
  The claim C4 as stated fails: a response without \<open>ok\<close> whose body carries one step
  (Input, in error) leaves a step list that is not the one the server returned.
\<close>

theorem failure_response_steps_counterexample:
  "serverSteps
     (submit
        (Responded False
           \<lparr>resp_status = Some error, resp_message = Some ''boom'',
            resp_steps = Some [\<lparr>step_name = ''Input'', step_status = error, step_detail = None\<rparr>],
            resp_generated_email = None\<rparr>)
        ((Home_initial Map.empty)\<lparr>instruction := ''go''\<rparr>))
   \<noteq> [\<lparr>step_name = ''Input'', step_status = error, step_detail = None\<rparr>]"
  by (simp add: submit_def handleSubmit_begin_def handleSubmit_settle_def catch_block_def
        finally_block_def run_Cons run_Nil trim_def is_js_whitespace_def Home_initial_def
        optimistic_steps_def)

text \<open>
  C5. An accepted call of \<open>handleSubmit\<close> sets, before the request is handed to
  \<open>fetch\<close> (the last effect of the list), \<open>isSubmitting\<close> to true, the error and the
  draft to null, the overall status to \<open>in_progress\<close>, and the step list to the snapshot
  Input completed with detail \<open>Instruction received.\<close>, Processing in progress, Sending
  idle, Completed idle. When \<open>fetch\<close> or \<open>response.json()\<close> rejects, this snapshot is
  the step list that remains.
\<close>

theorem accepted_submit_publishes_snapshot:
  assumes "trim (instruction s) \<noteq> []" and "\<not> isSubmitting s"
  shows "handleSubmit_begin s =
        [SetIsSubmitting True, SetSubmitError None, SetGeneratedEmail None,
         SetCurrentStatus in_progress,
         SetServerSteps
           [\<lparr>step_name = ''Input'', step_status = completed,
              step_detail = Some ''Instruction received.''\<rparr>,
            \<lparr>step_name = ''Processing'', step_status = in_progress, step_detail = None\<rparr>,
            \<lparr>step_name = ''Sending'', step_status = idle, step_detail = None\<rparr>,
            \<lparr>step_name = ''Completed'', step_status = idle, step_detail = None\<rparr>],
         Fetch \<lparr>req_instruction = instruction s, req_user_email = email_of (user s),
                req_user_name = name_of (user s)\<rparr>]
     \<and> isSubmitting (run (handleSubmit_begin s) s)
     \<and> submitError (run (handleSubmit_begin s) s) = None
     \<and> generatedEmail (run (handleSubmit_begin s) s) = None
     \<and> currentStatus (run (handleSubmit_begin s) s) = in_progress
     \<and> serverSteps (run (handleSubmit_begin s) s) =
           [\<lparr>step_name = ''Input'', step_status = completed,
              step_detail = Some ''Instruction received.''\<rparr>,
            \<lparr>step_name = ''Processing'', step_status = in_progress, step_detail = None\<rparr>,
            \<lparr>step_name = ''Sending'', step_status = idle, step_detail = None\<rparr>,
            \<lparr>step_name = ''Completed'', step_status = idle, step_detail = None\<rparr>]
     \<and> map (\<lambda>r. (key r, status r)) (workflowSteps (serverSteps (run (handleSubmit_begin s) s))) =
           [(''Input'', completed), (''Processing'', in_progress),
            (''Sending'', idle), (''Completed'', idle)]
     \<and> serverSteps (submit (FetchRejected e) s) = serverSteps (run (handleSubmit_begin s) s)
     \<and> serverSteps (submit (JsonRejected e) s) = serverSteps (run (handleSubmit_begin s) s)
     \<and> currentStatus (submit (FetchRejected e) s) = error
     \<and> \<not> isSubmitting (submit (FetchRejected e) s)"
proof -
  note b = handleSubmit_begin_accepted [OF assms]
  note r = submit_accepted [OF assms]
  have f: "try_block (FetchRejected e) = Inl e" "try_block (JsonRejected e) = Inl e"
    by simp_all
  have o: "optimistic_steps =
           [\<lparr>step_name = ''Input'', step_status = completed,
              step_detail = Some ''Instruction received.''\<rparr>,
            \<lparr>step_name = ''Processing'', step_status = in_progress, step_detail = None\<rparr>,
            \<lparr>step_name = ''Sending'', step_status = idle, step_detail = None\<rparr>,
            \<lparr>step_name = ''Completed'', step_status = idle, step_detail = None\<rparr>]"
    by (simp add: optimistic_steps_def)
  show ?thesis
    unfolding r settle_thrown [OF f(1)] settle_thrown [OF f(2)] b
    by (simp add: begin_effects [OF assms] workflowSteps_optimistic) (simp add: o)
qed

theorem accepted_submit_publishes_snapshot_witness:
  "trim (instruction ((Home_initial Map.empty)\<lparr>instruction := ''go''\<rparr>)) \<noteq> []
   \<and> \<not> isSubmitting ((Home_initial Map.empty)\<lparr>instruction := ''go''\<rparr>)
   \<and> isSubmitting (run (handleSubmit_begin ((Home_initial Map.empty)\<lparr>instruction := ''go''\<rparr>))
                      ((Home_initial Map.empty)\<lparr>instruction := ''go''\<rparr>))
   \<and> currentStatus (run (handleSubmit_begin ((Home_initial Map.empty)\<lparr>instruction := ''go''\<rparr>))
                      ((Home_initial Map.empty)\<lparr>instruction := ''go''\<rparr>)) = in_progress
   \<and> serverSteps (submit (FetchRejected (ErrorObject ''Failed to fetch''))
                      ((Home_initial Map.empty)\<lparr>instruction := ''go''\<rparr>))
       = [\<lparr>step_name = ''Input'', step_status = completed,
            step_detail = Some ''Instruction received.''\<rparr>,
          \<lparr>step_name = ''Processing'', step_status = in_progress, step_detail = None\<rparr>,
          \<lparr>step_name = ''Sending'', step_status = idle, step_detail = None\<rparr>,
          \<lparr>step_name = ''Completed'', step_status = idle, step_detail = None\<rparr>]"
proof -
  let ?g = "(Home_initial Map.empty)\<lparr>instruction := ''go''\<rparr>"
  have g: "trim (instruction ?g) \<noteq> []" "\<not> isSubmitting ?g"
    by (simp_all add: Home_initial_def trim_def is_js_whitespace_def)
  from accepted_submit_publishes_snapshot [OF g, of "ErrorObject ''Failed to fetch''"]
  have 1: "isSubmitting (run (handleSubmit_begin ?g) ?g)"
    and 2: "currentStatus (run (handleSubmit_begin ?g) ?g) = in_progress"
    and 3: "serverSteps (submit (FetchRejected (ErrorObject ''Failed to fetch'')) ?g)
            = serverSteps (run (handleSubmit_begin ?g) ?g)"
    and 4: "serverSteps (run (handleSubmit_begin ?g) ?g)
            = [\<lparr>step_name = ''Input'', step_status = completed,
                 step_detail = Some ''Instruction received.''\<rparr>,
               \<lparr>step_name = ''Processing'', step_status = in_progress, step_detail = None\<rparr>,
               \<lparr>step_name = ''Sending'', step_status = idle, step_detail = None\<rparr>,
               \<lparr>step_name = ''Completed'', step_status = idle, step_detail = None\<rparr>]"
    by blast+
  from g 1 2 3 [unfolded 4] show ?thesis
    by blast
qed

text \<open>
  C6. Whatever the outcome of the request, the setters of the second half of
  \<open>handleSubmit\<close> end with \<open>setIsSubmitting(false)\<close> and no earlier one touches
  \<open>isSubmitting\<close>: in every state before the last setter the lock is still held, and in
  the final state it is released.
\<close>

theorem lock_released_last:
  "handleSubmit_settle outcome \<noteq> []
   \<and> last (handleSubmit_settle outcome) = SetIsSubmitting False
   \<and> (\<forall>v. SetIsSubmitting v \<notin> set (butlast (handleSubmit_settle outcome)))
   \<and> \<not> isSubmitting (run (handleSubmit_settle outcome) s)
   \<and> (isSubmitting s \<longrightarrow>
        (\<forall>n < length (handleSubmit_settle outcome).
            isSubmitting (run (take n (handleSubmit_settle outcome)) s)))
   \<and> (trim (instruction s) \<noteq> [] \<and> \<not> isSubmitting s \<longrightarrow> \<not> isSubmitting (submit outcome s))"
proof -
  obtain body where sh: "handleSubmit_settle outcome = body @ [SetIsSubmitting False]"
    and nb: "\<And>v. SetIsSubmitting v \<notin> set body"
    using settle_shape by blast
  have fin: "\<not> isSubmitting (run (handleSubmit_settle outcome) s')" for s'
    by (simp add: sh run_append run_Cons run_Nil)
  have pre: "isSubmitting (run (take n (handleSubmit_settle outcome)) s)"
    if "isSubmitting s" and "n < length (handleSubmit_settle outcome)" for n
  proof -
    from that(2) have "take n (handleSubmit_settle outcome) = take n body"
      by (simp add: sh)
    moreover have "\<And>v. SetIsSubmitting v \<notin> set (take n body)"
      using nb by (meson in_set_takeD)
    ultimately show ?thesis
      using that(1) by (simp add: run_keeps_isSubmitting)
  qed
  show ?thesis
    using fin pre nb by (simp add: sh submit_accepted)
qed


theorem lock_released_last_witness:
  "isSubmitting ((Home_initial Map.empty)\<lparr>isSubmitting := True\<rparr>)
   \<and> (1::nat) < length (handleSubmit_settle (FetchRejected NonError))
   \<and> isSubmitting (run (take 1 (handleSubmit_settle (FetchRejected NonError)))
                      ((Home_initial Map.empty)\<lparr>isSubmitting := True\<rparr>))
   \<and> \<not> isSubmitting (run (handleSubmit_settle (FetchRejected NonError))
                        ((Home_initial Map.empty)\<lparr>isSubmitting := True\<rparr>))
   \<and> trim (instruction ((Home_initial Map.empty)\<lparr>instruction := ''go''\<rparr>)) \<noteq> []
   \<and> \<not> isSubmitting ((Home_initial Map.empty)\<lparr>instruction := ''go''\<rparr>)
   \<and> \<not> isSubmitting (submit (FetchRejected NonError)
                          ((Home_initial Map.empty)\<lparr>instruction := ''go''\<rparr>))"
proof -
  let ?g = "(Home_initial Map.empty)\<lparr>instruction := ''go''\<rparr>"
  let ?f = "(Home_initial Map.empty)\<lparr>isSubmitting := True\<rparr>"
  have g: "trim (instruction ?g) \<noteq> [] \<and> \<not> isSubmitting ?g"
    by (simp add: Home_initial_def trim_def is_js_whitespace_def)
  have f: "isSubmitting ?f"
    by simp
  have n: "(1::nat) < length (handleSubmit_settle (FetchRejected NonError))"
    by (simp add: handleSubmit_settle_def catch_block_def finally_block_def)
  from lock_released_last [of "FetchRejected NonError" ?f] f n
  have 1: "isSubmitting (run (take 1 (handleSubmit_settle (FetchRejected NonError))) ?f)
           \<and> \<not> isSubmitting (run (handleSubmit_settle (FetchRejected NonError)) ?f)"
    by blast
  from lock_released_last [of "FetchRejected NonError" ?g] g
  have 2: "\<not> isSubmitting (submit (FetchRejected NonError) ?g)"
    by blast
  from f n g 1 2 show ?thesis
    by blast
qed

section \<open>AuthSessionSync: properties\<close>

text \<open>
  C7. The message handler acts exactly when the origin of the event equals the
  configured origin and the email of the payload is truthy, which for an email that is a
  string means non-empty and for a missing email is never the case. It then sets the
  identity to the payload, stores the serialized payload under the authentication key and
  clears the authentication error. After a message from another origin (or without an
  email) the whole state, with identity, store and authentication error, is unchanged.
\<close>

theorem messageHandler_accepts_iff:
  "(messageHandler apiOrigin JSON_stringify event_origin event_data \<noteq> []
      \<longleftrightarrow> event_origin = apiOrigin \<and> truthy (email_of event_data))
   \<and> (event_origin = apiOrigin \<and> truthy (email_of event_data) \<longrightarrow>
        run (messageHandler apiOrigin JSON_stringify event_origin event_data) s =
          s\<lparr>user := event_data,
            localStorage := (localStorage s)(AUTH_STORAGE_KEY \<mapsto> JSON_stringify event_data),
            authError := None\<rparr>)
   \<and> (event_origin \<noteq> apiOrigin \<longrightarrow>
        run (messageHandler apiOrigin JSON_stringify event_origin event_data) s = s)
   \<and> (\<not> truthy (email_of event_data) \<longrightarrow>
        run (messageHandler apiOrigin JSON_stringify event_origin event_data) s = s)
   \<and> (\<forall>e. email_of event_data = JStr e \<longrightarrow> (truthy (email_of event_data) \<longleftrightarrow> e \<noteq> []))
   \<and> (email_of event_data = JUndefined \<longrightarrow> \<not> truthy (email_of event_data))"
proof (intro conjI impI allI)
  show "messageHandler apiOrigin JSON_stringify event_origin event_data \<noteq> []
      \<longleftrightarrow> event_origin = apiOrigin \<and> truthy (email_of event_data)"
    by (simp add: messageHandler_def)
next
  assume "event_origin = apiOrigin \<and> truthy (email_of event_data)"
  then show "run (messageHandler apiOrigin JSON_stringify event_origin event_data) s =
          s\<lparr>user := event_data,
            localStorage := (localStorage s)(AUTH_STORAGE_KEY \<mapsto> JSON_stringify event_data),
            authError := None\<rparr>"
    by (simp add: messageHandler_accept run_Cons run_Nil)
next
  assume "event_origin \<noteq> apiOrigin"
  then show "run (messageHandler apiOrigin JSON_stringify event_origin event_data) s = s"
    by (simp add: messageHandler_reject run_Nil)
next
  assume "\<not> truthy (email_of event_data)"
  then show "run (messageHandler apiOrigin JSON_stringify event_origin event_data) s = s"
    by (simp add: messageHandler_reject run_Nil)
next
  fix e assume "email_of event_data = JStr e"
  then show "truthy (email_of event_data) \<longleftrightarrow> e \<noteq> []"
    by simp
next
  assume "email_of event_data = JUndefined"
  then show "\<not> truthy (email_of event_data)"
    by simp
qed

theorem messageHandler_accepts_iff_witness:
  "''http://localhost:8000'' = ''http://localhost:8000''
   \<and> truthy (email_of (JObj [(''email'', JStr ''ada@example.org'')]))
   \<and> user (run (messageHandler ''http://localhost:8000'' (\<lambda>v. ''serialized'')
                    ''http://localhost:8000'' (JObj [(''email'', JStr ''ada@example.org'')]))
              ((Home_initial Map.empty)\<lparr>authError := Some ''blocked''\<rparr>))
       = JObj [(''email'', JStr ''ada@example.org'')]
   \<and> localStorage (run (messageHandler ''http://localhost:8000'' (\<lambda>v. ''serialized'')
                    ''http://localhost:8000'' (JObj [(''email'', JStr ''ada@example.org'')]))
              ((Home_initial Map.empty)\<lparr>authError := Some ''blocked''\<rparr>)) AUTH_STORAGE_KEY
       = Some ''serialized''
   \<and> authError (run (messageHandler ''http://localhost:8000'' (\<lambda>v. ''serialized'')
                    ''http://localhost:8000'' (JObj [(''email'', JStr ''ada@example.org'')]))
              ((Home_initial Map.empty)\<lparr>authError := Some ''blocked''\<rparr>))
       = None
   \<and> ''http://evil.example'' \<noteq> ''http://localhost:8000''
   \<and> run (messageHandler ''http://localhost:8000'' (\<lambda>v. ''serialized'')
             ''http://evil.example'' (JObj [(''email'', JStr ''ada@example.org'')]))
          ((Home_initial Map.empty)\<lparr>authError := Some ''blocked''\<rparr>)
       = (Home_initial Map.empty)\<lparr>authError := Some ''blocked''\<rparr>"
proof -
  let ?d = "JObj [(''email'', JStr ''ada@example.org'')]"
  let ?s = "(Home_initial Map.empty)\<lparr>authError := Some ''blocked''\<rparr>"
  have a: "''http://localhost:8000'' = ''http://localhost:8000'' \<and> truthy (email_of ?d)"
    by (simp add: email_of_def)
  have b: "''http://evil.example'' \<noteq> ''http://localhost:8000''"
    by simp
  from messageHandler_accepts_iff
         [of "''http://localhost:8000''" "\<lambda>v. ''serialized''" "''http://localhost:8000''" ?d ?s] a
  have 1: "run (messageHandler ''http://localhost:8000'' (\<lambda>v. ''serialized'')
                    ''http://localhost:8000'' ?d) ?s
           = ?s\<lparr>user := ?d,
                 localStorage := (localStorage ?s)(AUTH_STORAGE_KEY \<mapsto> ''serialized''),
                 authError := None\<rparr>"
    by blast
  from messageHandler_accepts_iff
         [of "''http://localhost:8000''" "\<lambda>v. ''serialized''" "''http://evil.example''" ?d ?s] b
  have 2: "run (messageHandler ''http://localhost:8000'' (\<lambda>v. ''serialized'')
                    ''http://evil.example'' ?d) ?s = ?s"
    by blast
  show ?thesis
    unfolding 1 2 using a b by simp
qed

text \<open>
  C9, as amended. No operation of AuthSessionSync (restore on load, message, storage
  change, opening the popup) destroys the identity: each leaves \<open>user\<close> as it was or
  replaces it by a payload whose email is truthy, so an identity with an email stays one.
  Stored or cross-tab data that does not parse is logged with one warning and otherwise
  ignored; data that parses but has no truthy email is ignored without any warning. In
  both cases the handler returns and the identity is unchanged.
\<close>

theorem identity_never_destroyed:
  "(es = restoreFromStorage JSON_parse s
      \<or> es = messageHandler apiOrigin JSON_stringify event_origin event_data
      \<or> es = storageHandler JSON_parse event_key event_newValue
      \<or> es = handleGoogleConnect popup \<longrightarrow>
        (user (run es s) = user s \<or> truthy (email_of (user (run es s))))
        \<and> (truthy (email_of (user s)) \<longrightarrow> truthy (email_of (user (run es s)))))
   \<and> (localStorage s AUTH_STORAGE_KEY = Some raw \<and> raw \<noteq> [] \<and> JSON_parse raw = None \<longrightarrow>
        run (restoreFromStorage JSON_parse s) s
          = s\<lparr>console := console s @ [''Failed to parse stored auth'']\<rparr>)
   \<and> (raw \<noteq> [] \<and> JSON_parse raw = None \<longrightarrow>
        run (storageHandler JSON_parse (Some AUTH_STORAGE_KEY) (Some raw)) s
          = s\<lparr>console := console s @ [''Failed to parse auth payload from storage'']\<rparr>)
   \<and> (localStorage s AUTH_STORAGE_KEY = Some raw \<and> JSON_parse raw = Some v
        \<and> \<not> truthy (email_of v) \<longrightarrow>
        run (restoreFromStorage JSON_parse s) s = s)
   \<and> (JSON_parse raw = Some v \<and> \<not> truthy (email_of v) \<longrightarrow>
        run (storageHandler JSON_parse event_key (Some raw)) s = s)"
proof (intro conjI impI)
  assume "es = restoreFromStorage JSON_parse s
      \<or> es = messageHandler apiOrigin JSON_stringify event_origin event_data
      \<or> es = storageHandler JSON_parse event_key event_newValue
      \<or> es = handleGoogleConnect popup"
  then have "\<And>p. SetUser p \<in> set es \<Longrightarrow> truthy (email_of p)"
    using auth_handlers_SetUser by blast
  then show u: "user (run es s) = user s \<or> truthy (email_of (user (run es s)))"
    by (rule run_user)
  assume "truthy (email_of (user s))"
  with u show "truthy (email_of (user (run es s)))"
    by auto
next
  assume "localStorage s AUTH_STORAGE_KEY = Some raw \<and> raw \<noteq> [] \<and> JSON_parse raw = None"
  then show "run (restoreFromStorage JSON_parse s) s
          = s\<lparr>console := console s @ [''Failed to parse stored auth'']\<rparr>"
    by (simp add: restoreFromStorage_def run_Cons run_Nil)
next
  assume "raw \<noteq> [] \<and> JSON_parse raw = None"
  then show "run (storageHandler JSON_parse (Some AUTH_STORAGE_KEY) (Some raw)) s
          = s\<lparr>console := console s @ [''Failed to parse auth payload from storage'']\<rparr>"
    by (simp add: storageHandler_def run_Cons run_Nil)
next
  assume "localStorage s AUTH_STORAGE_KEY = Some raw \<and> JSON_parse raw = Some v
        \<and> \<not> truthy (email_of v)"
  then show "run (restoreFromStorage JSON_parse s) s = s"
    by (simp add: restoreFromStorage_def run_Nil)
next
  assume "JSON_parse raw = Some v \<and> \<not> truthy (email_of v)"
  then show "run (storageHandler JSON_parse event_key (Some raw)) s = s"
    by (simp add: storageHandler_def run_Nil)
qed

theorem identity_never_destroyed_witness:
  "truthy (email_of (user ((Home_initial [AUTH_STORAGE_KEY \<mapsto> ''junk''])
                             \<lparr>user := JObj [(''email'', JStr ''ada@example.org'')]\<rparr>)))
   \<and> truthy (email_of (user
        (run (restoreFromStorage Map.empty
                ((Home_initial [AUTH_STORAGE_KEY \<mapsto> ''junk''])
                   \<lparr>user := JObj [(''email'', JStr ''ada@example.org'')]\<rparr>))
           ((Home_initial [AUTH_STORAGE_KEY \<mapsto> ''junk''])
              \<lparr>user := JObj [(''email'', JStr ''ada@example.org'')]\<rparr>))))
   \<and> localStorage ((Home_initial [AUTH_STORAGE_KEY \<mapsto> ''junk''])
                      \<lparr>user := JObj [(''email'', JStr ''ada@example.org'')]\<rparr>) AUTH_STORAGE_KEY
       = Some ''junk''
   \<and> ''junk'' \<noteq> []
   \<and> (Map.empty :: string \<rightharpoonup> jsvalue) ''junk'' = None
   \<and> run (restoreFromStorage Map.empty
             ((Home_initial [AUTH_STORAGE_KEY \<mapsto> ''junk''])
                \<lparr>user := JObj [(''email'', JStr ''ada@example.org'')]\<rparr>))
        ((Home_initial [AUTH_STORAGE_KEY \<mapsto> ''junk''])
           \<lparr>user := JObj [(''email'', JStr ''ada@example.org'')]\<rparr>)
       = ((Home_initial [AUTH_STORAGE_KEY \<mapsto> ''junk''])
            \<lparr>user := JObj [(''email'', JStr ''ada@example.org'')]\<rparr>)
           \<lparr>console := [''Failed to parse stored auth'']\<rparr>
   \<and> [''{}'' \<mapsto> JObj []] ''{}'' = Some (JObj [])
   \<and> \<not> truthy (email_of (JObj []))
   \<and> run (storageHandler [''{}'' \<mapsto> JObj []] (Some AUTH_STORAGE_KEY) (Some ''{}''))
        ((Home_initial [AUTH_STORAGE_KEY \<mapsto> ''junk''])
           \<lparr>user := JObj [(''email'', JStr ''ada@example.org'')]\<rparr>)
       = (Home_initial [AUTH_STORAGE_KEY \<mapsto> ''junk''])
           \<lparr>user := JObj [(''email'', JStr ''ada@example.org'')]\<rparr>"
proof -
  let ?s = "(Home_initial [AUTH_STORAGE_KEY \<mapsto> ''junk''])
              \<lparr>user := JObj [(''email'', JStr ''ada@example.org'')]\<rparr>"
  let ?P = "[''{}'' \<mapsto> JObj []]"
  have t: "truthy (email_of (user ?s))"
    by (simp add: email_of_def)
  have l: "localStorage ?s AUTH_STORAGE_KEY = Some ''junk'' \<and> ''junk'' \<noteq> []
           \<and> (Map.empty :: string \<rightharpoonup> jsvalue) ''junk'' = None"
    by (simp add: Home_initial_def)
  have c: "console ?s = []"
    by (simp add: Home_initial_def)
  have p: "?P ''{}'' = Some (JObj []) \<and> \<not> truthy (email_of (JObj []))"
    by (simp add: email_of_def)
  note th = identity_never_destroyed
  from th [of "restoreFromStorage Map.empty ?s" Map.empty ?s] t
  have 1: "truthy (email_of (user (run (restoreFromStorage Map.empty ?s) ?s)))"
    by blast
  from th [of "[]" Map.empty ?s _ _ _ _ _ _ _ "''junk''"] l
  have 2: "run (restoreFromStorage Map.empty ?s) ?s
           = ?s\<lparr>console := console ?s @ [''Failed to parse stored auth'']\<rparr>"
    by blast
  from th [of "[]" ?P ?s _ _ _ _ "Some AUTH_STORAGE_KEY" _ _ "''{}''" "JObj []"] p
  have 3: "run (storageHandler ?P (Some AUTH_STORAGE_KEY) (Some ''{}'')) ?s = ?s"
    by blast
  from 2 have 4: "run (restoreFromStorage Map.empty ?s) ?s
           = ?s\<lparr>console := [''Failed to parse stored auth'']\<rparr>"
    by (simp only: c append_Nil)
  from t 1 l 4 p 3 show ?thesis
    by blast
qed

text \<open>
  The claim C9 as stated fails where it says that structurally invalid data is logged:
  the stored text \<open>{}\<close> parses to an object without email, and restoring from it leaves
  the console without a warning.
\<close>

theorem invalid_payload_not_logged_counterexample:
  "localStorage (Home_initial [AUTH_STORAGE_KEY \<mapsto> ''{}'']) AUTH_STORAGE_KEY = Some ''{}''
   \<and> [''{}'' \<mapsto> JObj []] ''{}'' = Some (JObj [])
   \<and> \<not> truthy (email_of (JObj []))
   \<and> console (run (restoreFromStorage [''{}'' \<mapsto> JObj []]
                      (Home_initial [AUTH_STORAGE_KEY \<mapsto> ''{}'']))
                 (Home_initial [AUTH_STORAGE_KEY \<mapsto> ''{}'']))
       = console (Home_initial [AUTH_STORAGE_KEY \<mapsto> ''{}''])
   \<and> console (run (restoreFromStorage [''{}'' \<mapsto> JObj []]
                      (Home_initial [AUTH_STORAGE_KEY \<mapsto> ''{}'']))
                 (Home_initial [AUTH_STORAGE_KEY \<mapsto> ''{}''])) = []"
  by (simp add: restoreFromStorage_def Home_initial_def email_of_def run_Nil)

section \<open>The authentication callback page: properties\<close>

text \<open>
  C10. The callback page writes to the store only under the authentication key and only
  when the \<open>payload\<close> parameter is present, parses to an object and that object has a
  truthy email; what it writes is the serialized parsed payload. With a missing or empty
  parameter, a parse failure or no email it writes nothing. In every case its last effect
  is the navigation to \<open>/\<close>, and apart from the write and a console warning it has no
  other effect: no error is surfaced.
\<close>

theorem AuthCallbackPage_writes_only_valid_payload:
  "(\<forall>k v. StorageSetItem k v \<in> set (AuthCallbackPage JSON_parse JSON_stringify payload) \<longrightarrow>
       k = AUTH_STORAGE_KEY
       \<and> (\<exists>p fs. payload = Some p \<and> p \<noteq> [] \<and> JSON_parse p = Some (JObj fs)
                  \<and> truthy (email_of (JObj fs)) \<and> v = JSON_stringify (JObj fs)))
   \<and> (\<forall>p parsed. payload = Some p \<and> p \<noteq> [] \<and> JSON_parse p = Some parsed
                    \<and> truthy (email_of parsed) \<longrightarrow>
         AuthCallbackPage JSON_parse JSON_stringify payload
           = [StorageSetItem AUTH_STORAGE_KEY (JSON_stringify parsed), RouterReplace ''/''])
   \<and> (payload = None \<or> payload = Some []
        \<or> (\<exists>p. payload = Some p \<and> JSON_parse p = None)
        \<or> (\<exists>p parsed. payload = Some p \<and> JSON_parse p = Some parsed
                        \<and> \<not> truthy (email_of parsed)) \<longrightarrow>
         (\<forall>k v. StorageSetItem k v \<notin> set (AuthCallbackPage JSON_parse JSON_stringify payload))
         \<and> localStorage (run (AuthCallbackPage JSON_parse JSON_stringify payload) s)
             = localStorage s)
   \<and> AuthCallbackPage JSON_parse JSON_stringify payload \<noteq> []
   \<and> last (AuthCallbackPage JSON_parse JSON_stringify payload) = RouterReplace ''/''
   \<and> route (run (AuthCallbackPage JSON_parse JSON_stringify payload) s) = ''/''
   \<and> (\<forall>e \<in> set (AuthCallbackPage JSON_parse JSON_stringify payload).
         (\<exists>v. e = StorageSetItem AUTH_STORAGE_KEY v)
         \<or> e = ConsoleWarn ''Unable to restore authentication payload''
         \<or> e = RouterReplace ''/'')
   \<and> submitError (run (AuthCallbackPage JSON_parse JSON_stringify payload) s) = submitError s
   \<and> authError (run (AuthCallbackPage JSON_parse JSON_stringify payload) s) = authError s"
proof -
  let ?es = "AuthCallbackPage JSON_parse JSON_stringify payload"
  consider (skip) "?es = [RouterReplace ''/'']"
      and "payload = None \<or> payload = Some []
           \<or> (\<exists>p parsed. payload = Some p \<and> JSON_parse p = Some parsed
                           \<and> \<not> truthy (email_of parsed))"
    | (warn) p where "payload = Some p" "p \<noteq> []" "JSON_parse p = None"
        "?es = [ConsoleWarn ''Unable to restore authentication payload'', RouterReplace ''/'']"
    | (stored) p fs where "payload = Some p" "p \<noteq> []" "JSON_parse p = Some (JObj fs)"
        "truthy (email_of (JObj fs))"
        "?es = [StorageSetItem AUTH_STORAGE_KEY (JSON_stringify (JObj fs)), RouterReplace ''/'']"
  proof (cases payload)
    case None
    then show ?thesis
      using skip by (simp add: AuthCallbackPage_def)
  next
    case (Some p)
    show ?thesis
    proof (cases "p = []")
      case True
      with Some show ?thesis
        using skip by (simp add: AuthCallbackPage_def)
    next
      case False
      show ?thesis
      proof (cases "JSON_parse p")
        case None
        with Some False show ?thesis
          using warn by (simp add: AuthCallbackPage_def)
      next
        case parsed: (Some v)
        show ?thesis
        proof (cases "truthy (email_of v)")
          case True
          then obtain fs where "v = JObj fs"
            using email_truthy_is_object by blast
          with Some False parsed True show ?thesis
            using stored by (simp add: AuthCallbackPage_def)
        next
          case f: False
          with Some False parsed show ?thesis
            using skip by (simp add: AuthCallbackPage_def)
        qed
      qed
    qed
  qed
  then show ?thesis
  proof cases
    case skip
    then show ?thesis
      by (auto simp: run_Cons run_Nil)
  next
    case warn
    then show ?thesis
      by (auto simp: run_Cons run_Nil)
  next
    case stored
    then show ?thesis
      by (auto simp: run_Cons run_Nil)
  qed
qed


theorem AuthCallbackPage_writes_only_valid_payload_witness:
  "[''P'' \<mapsto> JObj [(''email'', JStr ''ada@example.org'')]] ''P''
      = Some (JObj [(''email'', JStr ''ada@example.org'')])
   \<and> ''P'' \<noteq> []
   \<and> truthy (email_of (JObj [(''email'', JStr ''ada@example.org'')]))
   \<and> AuthCallbackPage [''P'' \<mapsto> JObj [(''email'', JStr ''ada@example.org'')]]
        (\<lambda>v. ''serialized'') (Some ''P'')
       = [StorageSetItem AUTH_STORAGE_KEY ''serialized'', RouterReplace ''/'']
   \<and> localStorage (run (AuthCallbackPage [''P'' \<mapsto> JObj [(''email'', JStr ''ada@example.org'')]]
                           (\<lambda>v. ''serialized'') (Some ''junk''))
                      (Home_initial Map.empty))
       = localStorage (Home_initial Map.empty)
   \<and> RouterReplace ''/'' \<in> set (AuthCallbackPage
         [''P'' \<mapsto> JObj [(''email'', JStr ''ada@example.org'')]] (\<lambda>v. ''serialized'') (Some ''junk''))"
proof -
  let ?d = "JObj [(''email'', JStr ''ada@example.org'')]"
  let ?P = "[''P'' \<mapsto> ?d]"
  let ?S = "\<lambda>v::jsvalue. ''serialized''"
  have a: "?P ''P'' = Some ?d \<and> ''P'' \<noteq> [] \<and> truthy (email_of ?d)"
    by (simp add: email_of_def)
  have j: "?P ''junk'' = None"
    by simp
  note ok = AuthCallbackPage_writes_only_valid_payload [of ?P ?S "Some ''P''"]
  note ko = AuthCallbackPage_writes_only_valid_payload
              [of ?P ?S "Some ''junk''" "Home_initial Map.empty"]
  from ok [THEN conjunct2, THEN conjunct1, rule_format, of "''P''" ?d] a
  have 1: "AuthCallbackPage ?P ?S (Some ''P'')
           = [StorageSetItem AUTH_STORAGE_KEY ''serialized'', RouterReplace ''/'']"
    by simp
  from ko [THEN conjunct2, THEN conjunct2, THEN conjunct1] j
  have 2: "localStorage (run (AuthCallbackPage ?P ?S (Some ''junk'')) (Home_initial Map.empty))
           = localStorage (Home_initial Map.empty)"
    by simp
  from ko [THEN conjunct2, THEN conjunct2, THEN conjunct2, THEN conjunct1]
       ko [THEN conjunct2, THEN conjunct2, THEN conjunct2, THEN conjunct2, THEN conjunct1]
  have 3: "RouterReplace ''/'' \<in> set (AuthCallbackPage ?P ?S (Some ''junk''))"
    using last_in_set [of "AuthCallbackPage ?P ?S (Some ''junk'')"] by simp
  from a 1 2 3 show ?thesis
    by (intro conjI) (simp_all only: simp_thms)
qed

end
